theory Spec2Isabelle
  imports Main "HOL-Library.Word"
begin

section \<open>Text: characters, classes and the string methods the scripts use\<close>

text \<open>
  A Python \<open>str\<close> is modelled as a \<open>string\<close> whose characters are the code points
  0..255.  The classes below are the ones CPython's \<open>re\<close> module (Unicode patterns) and
  \<open>str.strip\<close> use, restricted to that range.
\<close>

definition is_space :: "char \<Rightarrow> bool" where
  \<comment> \<open>\<open>\s\<close> and \<open>str.isspace\<close>: TAB..CR, the separators FS..US, SPACE, NEL and NBSP.\<close>
  "is_space c = (let n = of_char c :: nat in
     (9 \<le> n \<and> n \<le> 13) \<or> (28 \<le> n \<and> n \<le> 32) \<or> n = 133 \<or> n = 160)"

definition is_word :: "char \<Rightarrow> bool" where
  \<comment> \<open>\<open>\w\<close>: alphanumeric code points and the underscore.\<close>
  "is_word c = (let n = of_char c :: nat in
     (48 \<le> n \<and> n \<le> 57) \<or> (65 \<le> n \<and> n \<le> 90) \<or> n = 95 \<or> (97 \<le> n \<and> n \<le> 122) \<or>
     n = 170 \<or> n = 178 \<or> n = 179 \<or> n = 181 \<or> n = 185 \<or> n = 186 \<or>
     (188 \<le> n \<and> n \<le> 190) \<or> (192 \<le> n \<and> n \<le> 214) \<or> (216 \<le> n \<and> n \<le> 246) \<or>
     (248 \<le> n \<and> n \<le> 255))"

definition strip :: "string \<Rightarrow> string" where
  \<comment> \<open>\<open>str.strip()\<close>: whitespace removed at both ends.\<close>
  "strip s = rev (dropWhile is_space (rev (dropWhile is_space s)))"

definition NL :: char where
  "NL = CHR 0x0A"

definition lower_char :: "char \<Rightarrow> char" where
  \<comment> \<open>\<open>str.lower\<close> on one code point below 256: A..Z and the accented capitals.\<close>
  "lower_char c = (let n = of_char c :: nat in
     if (65 \<le> n \<and> n \<le> 90) \<or> (192 \<le> n \<and> n \<le> 222 \<and> n \<noteq> 215) then char_of (n + 32) else c)"

definition lower :: "string \<Rightarrow> string" where
  "lower s = map lower_char s"

definition chomp :: "string \<Rightarrow> string" where
  \<comment> \<open>\<open>if content.endswith("\n"): content = content[:-1]\<close>\<close>
  "chomp s = (if s \<noteq> [] \<and> last s = NL then butlast s else s)"

section \<open>Regular expressions as \<open>re\<close> runs them\<close>

text \<open>
  The five patterns of \<open>parse_model_response\<close> are written as syntax trees and run by a
  backtracking matcher with the priorities of Python's \<open>re\<close>: a greedy repeat tries
  the longest run first, a lazy one the shortest, an optional part is tried before it is
  skipped, alternatives are tried left to right, and the first success is the match.
  Every repeat in the patterns ranges over a single character class, so repeats carry a
  class.  The matcher works on a stack of what is still to be matched; \<open>Close n s0\<close>
  ends group \<open>n\<close>, which was opened when the remaining input was \<open>s0\<close>.
\<close>

datatype cls = Space | Word | AnyChar | NoneOf string

fun in_cls :: "cls \<Rightarrow> char \<Rightarrow> bool" where
  "in_cls Space x = is_space x"
| "in_cls Word x = is_word x"
| "in_cls AnyChar x = True"
| "in_cls (NoneOf xs) x = (x \<notin> set xs)"

datatype re =
    Lit string
  | Seq re re
  | Alt re re
  | Opt re
  | Star cls
  | StarLazy cls
  | Plus cls
  | Group nat re
  | Look re
  | Eos

fun seqs :: "re list \<Rightarrow> re" where
  "seqs [] = Lit []"
| "seqs [r] = r"
| "seqs (r # rs) = Seq r (seqs rs)"

type_synonym caps = "nat \<rightharpoonup> string"

datatype item = R re | Close nat string

fun lit_match :: "bool \<Rightarrow> string \<Rightarrow> string \<Rightarrow> string option" where
  \<comment> \<open>a literal at the head of the input; \<open>ic\<close> is \<open>re.IGNORECASE\<close>\<close>
  "lit_match ic [] s = Some s"
| "lit_match ic (a # as) [] = None"
| "lit_match ic (a # as) (x # xs) =
     (if (if ic then lower_char a = lower_char x else a = x) then lit_match ic as xs else None)"

fun re_size :: "re \<Rightarrow> nat" where
  "re_size (Seq r1 r2) = Suc (re_size r1 + re_size r2)"
| "re_size (Alt r1 r2) = Suc (re_size r1 + re_size r2)"
| "re_size (Opt r) = Suc (re_size r)"
| "re_size (Group n r) = Suc (Suc (re_size r))"
| "re_size (Look r) = Suc (re_size r)"
| "re_size r = 1"

fun item_size :: "item \<Rightarrow> nat" where
  "item_size (R r) = re_size r"
| "item_size (Close n s) = 1"

function (sequential) rmatch ::
  "bool \<Rightarrow> item list \<Rightarrow> string \<Rightarrow> caps \<Rightarrow> (caps \<times> string) option" where
  "rmatch ic [] s c = Some (c, s)"
| "rmatch ic (Close n s0 # k) s c = rmatch ic k s (c(n \<mapsto> take (length s0 - length s) s0))"
| "rmatch ic (R (Lit l) # k) s c =
     (case lit_match ic l s of None \<Rightarrow> None | Some s' \<Rightarrow> rmatch ic k s' c)"
| "rmatch ic (R (Seq r1 r2) # k) s c = rmatch ic (R r1 # R r2 # k) s c"
| "rmatch ic (R (Alt r1 r2) # k) s c =
     (case rmatch ic (R r1 # k) s c of Some y \<Rightarrow> Some y | None \<Rightarrow> rmatch ic (R r2 # k) s c)"
| "rmatch ic (R (Opt r) # k) s c =
     (case rmatch ic (R r # k) s c of Some y \<Rightarrow> Some y | None \<Rightarrow> rmatch ic k s c)"
| "rmatch ic (R (Star cl) # k) [] c = rmatch ic k [] c"
| "rmatch ic (R (Star cl) # k) (x # xs) c =
     (if in_cls cl x
      then (case rmatch ic (R (Star cl) # k) xs c of Some y \<Rightarrow> Some y
            | None \<Rightarrow> rmatch ic k (x # xs) c)
      else rmatch ic k (x # xs) c)"
| "rmatch ic (R (StarLazy cl) # k) [] c = rmatch ic k [] c"
| "rmatch ic (R (StarLazy cl) # k) (x # xs) c =
     (case rmatch ic k (x # xs) c of Some y \<Rightarrow> Some y
      | None \<Rightarrow> if in_cls cl x then rmatch ic (R (StarLazy cl) # k) xs c else None)"
| "rmatch ic (R (Plus cl) # k) [] c = None"
| "rmatch ic (R (Plus cl) # k) (x # xs) c =
     (if in_cls cl x then rmatch ic (R (Star cl) # k) xs c else None)"
| "rmatch ic (R (Group n r) # k) s c = rmatch ic (R r # Close n s # k) s c"
| "rmatch ic (R (Look r) # k) s c =
     (case rmatch ic [R r] s c of None \<Rightarrow> None | Some y \<Rightarrow> rmatch ic k s c)"
| "rmatch ic (R Eos # k) s c = (if s = [] \<or> s = [NL] then rmatch ic k s c else None)"
  by pat_completeness auto
termination
  by (relation "inv_image (less_than <*lex*> less_than)
        (\<lambda>(ic, k, s, c). (sum_list (map item_size k), length s))") auto

fun search :: "bool \<Rightarrow> re \<Rightarrow> string \<Rightarrow> (caps \<times> string) option" where
  \<comment> \<open>\<open>re.search\<close>: the match at the leftmost position that has one\<close>
  "search ic r [] = rmatch ic [R r] [] Map.empty"
| "search ic r (x # xs) =
     (case rmatch ic [R r] (x # xs) Map.empty of Some y \<Rightarrow> Some y | None \<Rightarrow> search ic r xs)"

fun finditer :: "bool \<Rightarrow> re \<Rightarrow> string \<Rightarrow> caps list" where
  \<comment> \<open>\<open>pattern.finditer\<close>: the matches from left to right, each search starting where the
      match before it ended.  No pattern here matches the empty string (each holds the
      literal \<open>File:\<close>), so the branch for a match that consumed nothing is never taken.\<close>
  "finditer ic r [] = []"
| "finditer ic r (x # xs) =
     (case rmatch ic [R r] (x # xs) Map.empty of
        None \<Rightarrow> finditer ic r xs
      | Some (c, rest) \<Rightarrow>
          c # (if length rest < length (x # xs) then finditer ic r rest else finditer ic r xs))"

definition heading :: re where
  \<comment> \<open>\<open>###?\s*\<close>\<close>
  "heading = seqs [Lit ''##'', Opt (Lit ''#''), Star Space]"

definition fence :: re where
  \<comment> \<open>the code block \<open>```\w*\s*\n(.*?)```\<close>, group 3\<close>
  "fence = seqs [Lit ''```'', Star Word, Star Space, Lit [NL], Group 3 (StarLazy AnyChar),
     Lit ''```'']"

definition json_pattern :: re where
  \<comment> \<open>\<open>```json\s*\n(.*?)\n```\<close> with \<open>re.DOTALL\<close>\<close>
  "json_pattern = seqs [Lit ''```json'', Star Space, Lit [NL], Group 1 (StarLazy AnyChar),
     Lit (NL # ''```'')]"

definition explanation_pattern :: re where
  \<comment> \<open>\<open>##\s*Explanation\s*\n(.*?)(?=##\s*Changes|##\s*File:|$)\<close> with
      \<open>re.DOTALL | re.IGNORECASE\<close>\<close>
  "explanation_pattern = seqs [Lit ''##'', Star Space, Lit ''Explanation'', Star Space,
     Lit [NL], Group 1 (StarLazy AnyChar),
     Look (Alt (seqs [Lit ''##'', Star Space, Lit ''Changes''])
            (Alt (seqs [Lit ''##'', Star Space, Lit ''File:'']) Eos))]"

definition file_pattern :: re where
  \<comment> \<open>\<open>###?\s*File:\s*`([^`]+)`\s*\n(?:###?\s*Action:\s*(\w+)\s*\n)?```\w*\s*\n(.*?)```\<close>
      with \<open>re.DOTALL\<close>\<close>
  "file_pattern = seqs [heading, Lit ''File:'', Star Space,
     Lit ''`'', Group 1 (Plus (NoneOf ''`'')), Lit ''`'', Star Space, Lit [NL],
     Opt (seqs [heading, Lit ''Action:'', Star Space, Group 2 (Plus Word), Star Space,
                Lit [NL]]),
     fence]"

definition alt_pattern :: re where
  \<comment> \<open>\<open>(?:###?\s*)?File:\s*([^\n`]+)\s*\n(?:Action:\s*(\w+)\s*\n)?```\w*\s*\n(.*?)```\<close>
      with \<open>re.DOTALL\<close>\<close>
  "alt_pattern = seqs [Opt heading, Lit ''File:'', Star Space,
     Group 1 (Plus (NoneOf (NL # ''`''))), Star Space, Lit [NL],
     Opt (seqs [Lit ''Action:'', Star Space, Group 2 (Plus Word), Star Space, Lit [NL]]),
     fence]"

definition delete_pattern :: re where
  \<comment> \<open>\<open>###?\s*File:\s*`?([^`\n]+)`?\s*\n###?\s*Action:\s*delete\<close> with
      \<open>re.IGNORECASE\<close>\<close>
  "delete_pattern = seqs [heading, Lit ''File:'', Star Space, Opt (Lit ''`''),
     Group 1 (Plus (NoneOf (CHR 0x60 # [NL]))), Opt (Lit ''`''), Star Space, Lit [NL],
     heading, Lit ''Action:'', Star Space, Lit ''delete'']"

definition group :: "caps \<Rightarrow> nat \<Rightarrow> string" where
  \<comment> \<open>\<open>match.group(n)\<close> of a group that took part in the match\<close>
  "group c n = (case c n of Some s \<Rightarrow> s | None \<Rightarrow> [])"

section \<open>Edit Parser: \<open>parse_model_response\<close>\<close>

text \<open>
  The values \<open>json.loads\<close> returns.  A float is kept as its 64 bits.  \<open>json.loads\<close>
  itself belongs to the standard library: it is the parameter \<open>loads\<close>, which gives
  \<open>None\<close> where \<open>json.loads\<close> raises \<open>JSONDecodeError\<close>.
\<close>

datatype json =
    JNull
  | JBool bool
  | JInt int
  | JFloat "64 word"
  | JString string
  | JArray "json list"
  | JObject "(string \<times> json) list"

record change =
  path :: string
  action :: string
  content :: string

definition change_json :: "change \<Rightarrow> json" where
  "change_json ch = JObject [(''path'', JString (path ch)), (''action'', JString (action ch)),
     (''content'', JString (content ch))]"

definition match_change :: "bool \<Rightarrow> caps \<Rightarrow> change" where
  \<comment> \<open>the body of both \<open>finditer\<close> loops; the second strips the path\<close>
  "match_change strip_path c =
     \<lparr>path = (if strip_path then strip (group c 1) else group c 1),
      action = lower (case c 2 of None \<Rightarrow> ''modify''
                      | Some a \<Rightarrow> if a = [] then ''modify'' else a),
      content = chomp (group c 3)\<rparr>"

fun add_deletes :: "string list \<Rightarrow> change list \<Rightarrow> change list" where
  \<comment> \<open>the loop over \<open>delete_pattern.finditer\<close>\<close>
  "add_deletes [] changes = changes"
| "add_deletes (p # ps) changes =
     add_deletes ps
       (if p \<in> set (map path changes) then changes
        else changes @ [\<lparr>path = p, action = ''delete'', content = []\<rparr>])"

definition content_changes :: "string \<Rightarrow> change list" where
  \<comment> \<open>the \<open>file_pattern\<close> loop, and the \<open>alt_pattern\<close> loop when the first found nothing\<close>
  "content_changes text =
     (let found = map (match_change False) (finditer False file_pattern text)
      in if found = [] then map (match_change True) (finditer False alt_pattern text)
         else found)"

definition delete_paths :: "string \<Rightarrow> string list" where
  "delete_paths text = map (\<lambda>c. strip (group c 1)) (finditer True delete_pattern text)"

definition markdown_changes :: "string \<Rightarrow> change list" where
  "markdown_changes text = add_deletes (delete_paths text) (content_changes text)"

definition markdown_explanation :: "string \<Rightarrow> string" where
  "markdown_explanation text =
     (case search True explanation_pattern text of
        None \<Rightarrow> []
      | Some (c, rest) \<Rightarrow> strip (group c 1))"

definition parse_markdown :: "string \<Rightarrow> json" where
  "parse_markdown text =
     JObject [(''explanation'', JString (markdown_explanation text)),
              (''changes'', JArray (map change_json (markdown_changes text)))]"

definition parse_model_response :: "(string \<Rightarrow> json option) \<Rightarrow> string \<Rightarrow> json" where
  "parse_model_response loads text =
     (case search False json_pattern text of
        None \<Rightarrow> parse_markdown text
      | Some (c, rest) \<Rightarrow>
          (case loads (group c 1) of
             Some (JObject kv) \<Rightarrow>
               if ''changes'' \<in> set (map fst kv) then JObject kv else parse_markdown text
           | _ \<Rightarrow> parse_markdown text))"

section \<open>The workspace: paths and files\<close>

text \<open>
  The file system is a table from resolved absolute paths (lists of names, the root is
  \<open>[]\<close>) to nodes, with the working directory of the process.  What is modelled are
  regular files and directories; symbolic links, permissions and limits on names are
  not, so the only errors are the ones a wrong kind of node or a missing one causes.
\<close>

datatype exn =
    KeyError
  | TypeError
  | FileNotFoundError
  | NotADirectoryError
  | IsADirectoryError
  | FileExistsError
  | OtherError string

datatype node = File string | Dir

record fsys =
  nodes :: "string list \<rightharpoonup> node"
  cwd :: "string list"

definition node_at :: "fsys \<Rightarrow> string list \<Rightarrow> node option" where
  "node_at f p = (if p = [] then Some Dir else nodes f p)"

text \<open>
  A \<open>pathlib.Path\<close>: whether it is absolute, and its parts.  Parsing drops empty parts
  and \<open>.\<close>, and keeps \<open>..\<close>, as \<open>pathlib\<close> does.
\<close>

record ppath =
  absolute :: bool
  parts :: "string list"

fun split_slash :: "string \<Rightarrow> string list" where
  \<comment> \<open>\<open>s.split("/")\<close>\<close>
  "split_slash [] = [[]]"
| "split_slash (x # xs) =
     (if x = CHR ''/'' then [] # split_slash xs
      else (case split_slash xs of [] \<Rightarrow> [[x]] | w # ws \<Rightarrow> (x # w) # ws))"

definition Path :: "string \<Rightarrow> ppath" where
  "Path s = \<lparr>absolute = (s \<noteq> [] \<and> hd s = CHR ''/''),
            parts = filter (\<lambda>w. w \<noteq> [] \<and> w \<noteq> ''.'') (split_slash s)\<rparr>"

definition joinpath :: "ppath \<Rightarrow> string \<Rightarrow> ppath" where
  \<comment> \<open>\<open>root / s\<close>: an absolute right operand replaces the left one\<close>
  "joinpath root s =
     (let q = Path s in
      if absolute q then q else \<lparr>absolute = absolute root, parts = parts root @ parts q\<rparr>)"

definition parent :: "ppath \<Rightarrow> ppath" where
  "parent P = \<lparr>absolute = absolute P, parts = butlast (parts P)\<rparr>"

fun walk :: "fsys \<Rightarrow> string list \<Rightarrow> string list \<Rightarrow> exn + string list" where
  \<comment> \<open>name lookup of the operating system: every step is taken from a directory\<close>
  "walk f cur [] = Inr cur"
| "walk f cur (c # cs) =
     (case node_at f cur of
        None \<Rightarrow> Inl FileNotFoundError
      | Some (File d) \<Rightarrow> Inl NotADirectoryError
      | Some Dir \<Rightarrow> walk f (if c = ''..'' then butlast cur else cur @ [c]) cs)"

definition resolve :: "fsys \<Rightarrow> ppath \<Rightarrow> exn + string list" where
  "resolve f P = walk f (if absolute P then [] else cwd f) (parts P)"

definition exists :: "fsys \<Rightarrow> ppath \<Rightarrow> bool" where
  \<comment> \<open>\<open>Path.exists()\<close>: a failed lookup is \<open>False\<close>\<close>
  "exists f P = (case resolve f P of Inl e \<Rightarrow> False | Inr p \<Rightarrow> node_at f p \<noteq> None)"

definition is_dir :: "fsys \<Rightarrow> ppath \<Rightarrow> bool" where
  "is_dir f P = (case resolve f P of Inl e \<Rightarrow> False | Inr p \<Rightarrow> node_at f p = Some Dir)"

definition unlink :: "fsys \<Rightarrow> ppath \<Rightarrow> exn + fsys" where
  "unlink f P =
     (case resolve f P of
        Inl e \<Rightarrow> Inl e
      | Inr p \<Rightarrow>
          (case node_at f p of
             None \<Rightarrow> Inl FileNotFoundError
           | Some Dir \<Rightarrow> Inl IsADirectoryError
           | Some (File d) \<Rightarrow> Inr (f\<lparr>nodes := (nodes f)(p := None)\<rparr>)))"

definition os_mkdir :: "fsys \<Rightarrow> ppath \<Rightarrow> exn + fsys" where
  "os_mkdir f P =
     (case resolve f P of
        Inl e \<Rightarrow> Inl e
      | Inr p \<Rightarrow>
          (case node_at f p of
             Some n \<Rightarrow> Inl FileExistsError
           | None \<Rightarrow> Inr (f\<lparr>nodes := (nodes f)(p \<mapsto> Dir)\<rparr>)))"

definition mkdir_exist_ok :: "fsys \<Rightarrow> ppath \<Rightarrow> exn + fsys" where
  \<comment> \<open>\<open>Path.mkdir(parents=False, exist_ok=True)\<close>\<close>
  "mkdir_exist_ok f P =
     (case os_mkdir f P of
        Inr f' \<Rightarrow> Inr f'
      | Inl FileNotFoundError \<Rightarrow> Inl FileNotFoundError
      | Inl e \<Rightarrow> if is_dir f P then Inr f else Inl e)"

fun mkdir_parents :: "fsys \<Rightarrow> bool \<Rightarrow> string list \<Rightarrow> exn + fsys" where
  \<comment> \<open>\<open>Path.mkdir(parents=True, exist_ok=True)\<close> of the path with these parts: when a
      parent is missing, the parent is made first and the directory after it\<close>
  "mkdir_parents f a ps =
     (case os_mkdir f \<lparr>absolute = a, parts = ps\<rparr> of
        Inr f' \<Rightarrow> Inr f'
      | Inl FileNotFoundError \<Rightarrow>
          if ps = [] then Inl FileNotFoundError
          else (case mkdir_parents f a (butlast ps) of
                  Inl e \<Rightarrow> Inl e
                | Inr f1 \<Rightarrow> mkdir_exist_ok f1 \<lparr>absolute = a, parts = ps\<rparr>)
      | Inl e \<Rightarrow> if is_dir f \<lparr>absolute = a, parts = ps\<rparr> then Inr f else Inl e)"

declare mkdir_parents.simps [simp del]

definition write_text :: "fsys \<Rightarrow> ppath \<Rightarrow> string \<Rightarrow> exn + fsys" where
  "write_text f P d =
     (case resolve f P of
        Inl e \<Rightarrow> Inl e
      | Inr p \<Rightarrow>
          (case node_at f p of
             Some Dir \<Rightarrow> Inl IsADirectoryError
           | _ \<Rightarrow> Inr (f\<lparr>nodes := (nodes f)(p \<mapsto> File d)\<rparr>)))"

definition read_text :: "fsys \<Rightarrow> ppath \<Rightarrow> exn + string" where
  "read_text f P =
     (case resolve f P of
        Inl e \<Rightarrow> Inl e
      | Inr p \<Rightarrow>
          (case node_at f p of
             None \<Rightarrow> Inl FileNotFoundError
           | Some Dir \<Rightarrow> Inl IsADirectoryError
           | Some (File d) \<Rightarrow> Inr d))"

section \<open>Workspace Mutator: \<open>apply_changes\<close>\<close>

text \<open>
  A change is whatever the parser returned for it: from the markdown formats a
  dictionary with the three keys, from a JSON block any value.  \<open>change["path"]\<close> needs a
  dictionary with that key, and \<open>repo_root / path\<close> and \<open>content + "\n"\<close> need strings.
  The summary is kept as one entry per line of the text the code returns.
\<close>

definition dict_get :: "(string \<times> json) list \<Rightarrow> string \<Rightarrow> json \<Rightarrow> json" where
  \<comment> \<open>\<open>d.get(key, default)\<close>\<close>
  "dict_get kv key dflt = (case map_of kv key of None \<Rightarrow> dflt | Some v \<Rightarrow> v)"

datatype summary_line =
    Deleted json
  | SkipDelete json
  | Modified json
  | Created json
  | UnknownAction json json

definition apply_change :: "ppath \<Rightarrow> json \<Rightarrow> fsys \<Rightarrow> (exn + summary_line) \<times> fsys" where
  \<comment> \<open>the body of the loop of \<open>apply_changes\<close>; the state is the one at the exception
      when there is one\<close>
  "apply_change repo_root chg f =
     (case chg of
        JObject kv \<Rightarrow>
          (case map_of kv ''path'' of
             None \<Rightarrow> (Inl KeyError, f)
           | Some pth \<Rightarrow>
               let act = dict_get kv ''action'' (JString ''modify'');
                   cont = dict_get kv ''content'' (JString [])
               in (case pth of
                     JString p \<Rightarrow>
                       let file_path = joinpath repo_root p in
                       if act = JString ''delete'' then
                         (if exists f file_path then
                            (case unlink f file_path of
                               Inl e \<Rightarrow> (Inl e, f)
                             | Inr f' \<Rightarrow> (Inr (Deleted pth), f'))
                          else (Inr (SkipDelete pth), f))
                       else if act = JString ''create'' \<or> act = JString ''modify'' then
                         (case mkdir_parents f (absolute file_path) (butlast (parts file_path)) of
                            Inl e \<Rightarrow> (Inl e, f)
                          | Inr f1 \<Rightarrow>
                              let existed = exists f1 file_path in
                              (case cont of
                                 JString d \<Rightarrow>
                                   (case write_text f1 file_path (d @ [NL]) of
                                      Inl e \<Rightarrow> (Inl e, f1)
                                    | Inr f2 \<Rightarrow>
                                        (Inr (if existed then Modified pth else Created pth), f2))
                               | _ \<Rightarrow> (Inl TypeError, f1)))
                       else (Inr (UnknownAction act pth), f)
                   | _ \<Rightarrow> (Inl TypeError, f)))
      | _ \<Rightarrow> (Inl TypeError, f))"

fun apply_list :: "ppath \<Rightarrow> json list \<Rightarrow> fsys \<Rightarrow> (exn + summary_line list) \<times> fsys" where
  "apply_list repo_root [] f = (Inr [], f)"
| "apply_list repo_root (chg # rest) f =
     (case apply_change repo_root chg f of
        (Inl e, f') \<Rightarrow> (Inl e, f')
      | (Inr line, f') \<Rightarrow>
          (case apply_list repo_root rest f' of
             (Inl e, f'') \<Rightarrow> (Inl e, f'')
           | (Inr ls, f'') \<Rightarrow> (Inr (line # ls), f'')))"

definition iterate :: "json \<Rightarrow> exn + json list" where
  \<comment> \<open>\<open>for change in changes\<close>: a list gives its elements, a dictionary its keys, a string
      its characters, and nothing else can be iterated\<close>
  "iterate v =
     (case v of
        JArray xs \<Rightarrow> Inr xs
      | JObject kv \<Rightarrow> Inr (map (\<lambda>(k, x). JString k) kv)
      | JString s \<Rightarrow> Inr (map (\<lambda>c. JString [c]) s)
      | _ \<Rightarrow> Inl TypeError)"

definition apply_changes :: "json \<Rightarrow> string \<Rightarrow> fsys \<Rightarrow> (exn + summary_line list) \<times> fsys" where
  "apply_changes changes repo_path f =
     (case iterate changes of
        Inl e \<Rightarrow> (Inl e, f)
      | Inr xs \<Rightarrow> apply_list (Path repo_path) xs f)"

section \<open>Diff Builder: \<open>generate_diff\<close>\<close>

record diff =
  diff_action :: string
  old :: string
  new :: json

definition diff_change ::
  "ppath \<Rightarrow> fsys \<Rightarrow> json \<Rightarrow> (string \<rightharpoonup> diff) \<Rightarrow> exn + (string \<rightharpoonup> diff)" where
  \<comment> \<open>the body of the loop of \<open>generate_diff\<close>; \<open>new\<close> is the content as it stands in the
      change, which need not be a string\<close>
  "diff_change repo_root f chg diffs =
     (case chg of
        JObject kv \<Rightarrow>
          (case map_of kv ''path'' of
             None \<Rightarrow> Inl KeyError
           | Some pth \<Rightarrow>
               let act = dict_get kv ''action'' (JString ''modify'');
                   cont = dict_get kv ''content'' (JString [])
               in (case pth of
                     JString p \<Rightarrow>
                       let file_path = joinpath repo_root p in
                       if act = JString ''delete'' then
                         (if exists f file_path then
                            (case read_text f file_path of
                               Inl e \<Rightarrow> Inl e
                             | Inr old_content \<Rightarrow>
                                 Inr (diffs(p \<mapsto> \<lparr>diff_action = ''delete'', old = old_content,
                                                  new = JString []\<rparr>)))
                          else Inr diffs)
                       else if act = JString ''create'' then
                         Inr (diffs(p \<mapsto> \<lparr>diff_action = ''create'', old = [], new = cont\<rparr>))
                       else if act = JString ''modify'' then
                         (if exists f file_path then
                            (case read_text f file_path of
                               Inl e \<Rightarrow> Inl e
                             | Inr old_content \<Rightarrow>
                                 Inr (diffs(p \<mapsto> \<lparr>diff_action = ''modify'', old = old_content,
                                                  new = cont\<rparr>)))
                          else Inr (diffs(p \<mapsto> \<lparr>diff_action = ''modify'', old = [], new = cont\<rparr>)))
                       else Inr diffs
                   | _ \<Rightarrow> Inl TypeError))
      | _ \<Rightarrow> Inl TypeError)"

fun diff_list ::
  "ppath \<Rightarrow> fsys \<Rightarrow> json list \<Rightarrow> (string \<rightharpoonup> diff) \<Rightarrow> exn + (string \<rightharpoonup> diff)" where
  "diff_list repo_root f [] diffs = Inr diffs"
| "diff_list repo_root f (chg # rest) diffs =
     (case diff_change repo_root f chg diffs of
        Inl e \<Rightarrow> Inl e
      | Inr diffs' \<Rightarrow> diff_list repo_root f rest diffs')"

definition generate_diff :: "json \<Rightarrow> string \<Rightarrow> fsys \<Rightarrow> exn + (string \<rightharpoonup> diff)" where
  "generate_diff changes repo_path f =
     (case iterate changes of
        Inl e \<Rightarrow> Inl e
      | Inr xs \<Rightarrow> diff_list (Path repo_path) f xs Map.empty)"

section \<open>Validator: \<open>run_tests\<close>\<close>

text \<open>
  What \<open>subprocess.run(test_command, shell=True, capture_output=True, text=True,
  timeout=300)\<close> does is the input of the model: the process finished with a return
  code and its two captured streams, the timeout expired (the exception carries what
  was captured so far), or another exception was raised, of which the code keeps
  \<open>str(e)\<close>.
\<close>

datatype proc_result =
    Completed (returncode: int) (stdout: string) (stderr: string)
  | TimeoutExpired string string
  | RunError string

definition timeout_message :: string where
  "timeout_message = ''Test command timed out after 5 minutes''"

fun run_tests :: "proc_result \<Rightarrow> bool \<times> string" where
  "run_tests (Completed rc out err) = (rc = 0, strip (out @ [NL] @ err))"
| "run_tests (TimeoutExpired out err) = (False, timeout_message)"
| "run_tests (RunError msg) = (False, ''Error running tests: '' @ msg)"

section \<open>Attempt Orchestrator: the retry loop of \<open>main\<close>\<close>

text \<open>
  The loop is the same in \<open>run_hal9000.py\<close> and \<open>execute_plan.py\<close>.  Its surroundings are
  parameters: \<open>call_llm\<close> (given the attempt and the feedback of the attempt before, the
  only part of the message that changes; it returns the response or raises),
  \<open>json.loads\<close>, the test command (what \<open>subprocess.run\<close> does with it in a workspace,
  and the workspace it leaves) and \<open>git checkout .\<close> (the workspace it leaves, or the
  exception of \<open>subprocess.run\<close>).  No \<open>try\<close> stands in the loop, so an exception of any
  call ends \<open>main\<close>.  The trace records which calls were made in which attempt.
\<close>

datatype summary = Lines "summary_line list" | ResponseHead string

record previous =
  test_output :: string
  changes_summary :: summary

record env =
  call_llm :: "int \<Rightarrow> previous option \<Rightarrow> exn + string"
  json_loads :: "string \<Rightarrow> json option"
  run_command :: "int \<Rightarrow> fsys \<Rightarrow> proc_result \<times> fsys"
  git_checkout :: "fsys \<Rightarrow> exn + fsys"

datatype event =
    is_Generated: Generated (attempt_of: int)
  | is_Applied: Applied (attempt_of: int)
  | is_Validated: Validated (attempt_of: int)
  | is_Reverted: Reverted (attempt_of: int)

record state =
  workspace :: fsys
  previous_attempt :: "previous option"
  trace :: "event list"

datatype outcome =
    Succeeded int json json string
  | Exhausted int string
  | Raised exn

datatype step = Break outcome state | Continue state

definition truthy :: "json \<Rightarrow> bool" where
  \<comment> \<open>the truth value Python gives a decoded value\<close>
  "truthy v =
     (case v of
        JNull \<Rightarrow> False
      | JBool b \<Rightarrow> b
      | JInt n \<Rightarrow> n \<noteq> 0
      | JFloat w \<Rightarrow> w \<noteq> 0 \<and> w \<noteq> 0x8000000000000000
      | JString s \<Rightarrow> s \<noteq> []
      | JArray xs \<Rightarrow> xs \<noteq> []
      | JObject kv \<Rightarrow> kv \<noteq> [])"

definition no_changes_message :: string where
  "no_changes_message = ''Model did not provide any file changes''"

definition log :: "event list \<Rightarrow> state \<Rightarrow> state" where
  "log es st = st\<lparr>trace := trace st @ es\<rparr>"

definition attempt :: "env \<Rightarrow> string \<Rightarrow> int \<Rightarrow> int \<Rightarrow> state \<Rightarrow> step" where
  \<comment> \<open>the body of the loop for one value of \<open>attempt\<close>: \<open>Continue\<close> is \<open>continue\<close> or the end
      of the body, \<open>Break\<close> is \<open>break\<close> after passing tests, or an exception leaving \<open>main\<close>\<close>
  "attempt E repo_path max_retries i st =
     (case call_llm E i (previous_attempt st) of
        Inl e \<Rightarrow> Break (Raised e) (log [Generated i] st)
      | Inr response_text \<Rightarrow>
          (case parse_model_response (json_loads E) response_text of
             JObject parsed \<Rightarrow>
               (case map_of parsed ''changes'' of
                  None \<Rightarrow> Break (Raised KeyError) (log [Generated i] st)
                | Some changes \<Rightarrow>
                    if \<not> truthy changes then
                      Continue
                        (log [Generated i]
                           (st\<lparr>previous_attempt :=
                                 Some \<lparr>test_output = no_changes_message,
                                       changes_summary = ResponseHead (take 1000 response_text)\<rparr>\<rparr>))
                    else
                      (case apply_changes changes repo_path (workspace st) of
                         (Inl e, f1) \<Rightarrow>
                           Break (Raised e) (log [Generated i, Applied i] (st\<lparr>workspace := f1\<rparr>))
                       | (Inr lines, f1) \<Rightarrow>
                           (case run_command E i f1 of
                              (pr, f2) \<Rightarrow>
                                (case run_tests pr of
                                   (test_success, output) \<Rightarrow>
                                     if test_success then
                                       Break
                                         (Succeeded i changes
                                            (dict_get parsed ''explanation'' (JString [])) output)
                                         (log [Generated i, Applied i, Validated i]
                                            (st\<lparr>workspace := f2\<rparr>))
                                     else
                                       let st' = log [Generated i, Applied i, Validated i]
                                                   (st\<lparr>workspace := f2,
                                                       previous_attempt :=
                                                         Some \<lparr>test_output = output,
                                                               changes_summary = Lines lines\<rparr>\<rparr>)
                                       in if i < max_retries then
                                            (case git_checkout E f2 of
                                               Inl e \<Rightarrow> Break (Raised e) (log [Reverted i] st')
                                             | Inr f3 \<Rightarrow>
                                                 Continue (log [Reverted i] (st'\<lparr>workspace := f3\<rparr>)))
                                          else Continue st'))))
           | _ \<Rightarrow> Break (Raised TypeError) (log [Generated i] st)))"

fun attempts :: "env \<Rightarrow> string \<Rightarrow> int \<Rightarrow> int list \<Rightarrow> state \<Rightarrow> outcome \<times> state" where
  \<comment> \<open>\<open>for attempt in range(1, max_retries + 1)\<close> from the attempts still to run, and
      the \<open>if not success\<close> after the loop\<close>
  "attempts E repo_path max_retries [] st =
     (Exhausted max_retries
        (case previous_attempt st of None \<Rightarrow> ''Unknown error'' | Some pr \<Rightarrow> test_output pr),
      st)"
| "attempts E repo_path max_retries (i # rest) st =
     (case attempt E repo_path max_retries i st of
        Break out st' \<Rightarrow> (out, st')
      | Continue st' \<Rightarrow> attempts E repo_path max_retries rest st')"

definition main :: "env \<Rightarrow> string \<Rightarrow> int \<Rightarrow> fsys \<Rightarrow> outcome \<times> state" where
  "main E repo_path max_retries f =
     attempts E repo_path max_retries [1..max_retries]
       \<lparr>workspace = f, previous_attempt = None, trace = []\<rparr>"

section \<open>Concrete inputs\<close>

text \<open>
  A small workspace and some responses, on which the definitions above are run: the
  repository is the directory \<open>/repo\<close>, which is also the working directory.
\<close>

definition example_workspace :: fsys where
  "example_workspace =
     \<lparr>nodes = [[''repo''] \<mapsto> Dir, [''repo'', ''src''] \<mapsto> Dir,
               [''repo'', ''src'', ''main.py''] \<mapsto> File (''print(1)'' @ [NL]),
               [''repo'', ''notes''] \<mapsto> File (''old'' @ [NL]), [''etc''] \<mapsto> Dir],
      cwd = [''repo'']\<rparr>"

definition twice_text :: string where
  \<comment> \<open>two tagged sections for the same path\<close>
  "twice_text = ''### File: `a`'' @ [NL] @ ''```'' @ [NL] @ ''x'' @ [NL] @ ''```'' @ [NL] @
                ''### File: `a`'' @ [NL] @ ''```'' @ [NL] @ ''y'' @ [NL] @ ''```'' @ [NL]"

definition deletes_text :: string where
  \<comment> \<open>a section with content for \<open>a\<close>, then delete headings for \<open>a\<close>, \<open>b\<close> and \<open>b\<close>\<close>
  "deletes_text = ''### File: `a`'' @ [NL] @ ''```'' @ [NL] @ ''x'' @ [NL] @ ''```'' @ [NL] @
                  ''### File: `a`'' @ [NL] @ ''### Action: delete'' @ [NL] @
                  ''### File: `b`'' @ [NL] @ ''### Action: delete'' @ [NL] @
                  ''### File: `b`'' @ [NL] @ ''### Action: delete'' @ [NL]"

definition current_content :: "fsys \<Rightarrow> ppath \<Rightarrow> string" where
  \<comment> \<open>what \<open>read_text\<close> gives for the file now, and the empty string when there is no
      file to read\<close>
  "current_content f P = (case read_text f P of Inr t \<Rightarrow> t | Inl e \<Rightarrow> [])"

definition diff_entry :: "ppath \<Rightarrow> fsys \<Rightarrow> change \<Rightarrow> diff option" where
  \<comment> \<open>the entry of one edit, by its action\<close>
  "diff_entry root f c =
     (let P = joinpath root (path c) in
      if action c = ''delete'' then
        (if exists f P
         then Some \<lparr>diff_action = ''delete'', old = current_content f P, new = JString []\<rparr>
         else None)
      else if action c = ''create'' then
        Some \<lparr>diff_action = ''create'', old = [], new = JString (content c)\<rparr>
      else if action c = ''modify'' then
        Some \<lparr>diff_action = ''modify'', old = current_content f P, new = JString (content c)\<rparr>
      else None)"

text \<open>What a run over the attempts \<open>is\<close> may add to the trace, by its outcome.\<close>

definition run_ok :: "int \<Rightarrow> int list \<Rightarrow> outcome \<Rightarrow> event list \<Rightarrow> bool" where
  "run_ok k is out ev =
    (length (filter is_Generated ev) \<le> length is \<and>
     length (filter is_Reverted ev) \<le> length (filter (\<lambda>i. i < k) is) \<and>
     (\<forall>e\<in>set ev. attempt_of e \<in> set is) \<and>
     (\<forall>j. Reverted j \<in> set ev \<longrightarrow> j < k) \<and>
     (case out of
        Exhausted n m \<Rightarrow> n = k \<and> length (filter is_Generated ev) = length is
      | Succeeded j c x t \<Rightarrow> j \<in> set is \<and> ev \<noteq> [] \<and> last ev = Validated j
      | Raised e \<Rightarrow> ev \<noteq> [] \<and>
          (\<exists>j \<in> set is. last ev = Generated j \<or> last ev = Applied j \<or> last ev = Reverted j)))"



definition directory_text :: string where
  "directory_text = ''### File: `src`'' @ [NL] @ ''```'' @ [NL] @ ''x'' @ [NL] @ ''```'' @ [NL]"



definition writes_directory :: env where
  "writes_directory =
     \<lparr>call_llm = (\<lambda>i prev. Inr directory_text),
      json_loads = (\<lambda>s. None),
      run_command = (\<lambda>i f. (Completed 0 [] [], f)),
      git_checkout = (\<lambda>f. Inr example_workspace)\<rparr>"

definition no_sections :: env where
  "no_sections =
     \<lparr>call_llm = (\<lambda>i prev. Inr ''I can not do that.''),
      json_loads = (\<lambda>s. None),
      run_command = (\<lambda>i f. (Completed 0 [] [], f)),
      git_checkout = (\<lambda>f. Inr example_workspace)\<rparr>"

definition start :: state where
  "start = \<lparr>workspace = example_workspace, previous_attempt = None, trace = []\<rparr>"

section \<open>Shapes of response texts\<close>




definition quoted :: "string \<Rightarrow> string" where
  "quoted s = CHR 0x22 # s @ [CHR 0x22]"

definition block_body :: string where
  "block_body = ''{'' @ quoted ''explanation'' @ '': '' @ quoted ''e'' @ '', '' @
                quoted ''changes'' @ '': [{'' @ quoted ''path'' @ '': '' @ quoted ''a.txt'' @ ''}]}''"

definition block_value :: json where
  "block_value = JObject [(''explanation'', JString ''e''),
                          (''changes'', JArray [JObject [(''path'', JString ''a.txt'')]])]"

definition example_loads :: "string \<Rightarrow> json option" where
  "example_loads s = (if s = block_body then Some block_value else None)"



section \<open>Paths inside the workspace\<close>






section \<open>Properties of the validator\<close>

text \<open>
  C6 (as amended).  \<open>run_tests\<close> returns a pair of a flag and a text and nothing else:
  a finished command passes exactly when its return code is 0, and its text is the
  stripped \<open>stdout + "\n" + stderr\<close> whatever the code was (the code itself is not kept);
  a timeout is an ordinary failed result whose text is the fixed sentence
  \<open>Test command timed out after 5 minutes\<close>, without the output captured so far; any
  other exception is a failed result with \<open>Error running tests: \<close> and its message.
\<close>

theorem run_tests_classification:
  "fst (run_tests (Completed rc out err)) = (rc = 0) \<and>
   snd (run_tests (Completed rc out err)) = strip (out @ [NL] @ err) \<and>
   run_tests (TimeoutExpired out err) = (False, ''Test command timed out after 5 minutes'') \<and>
   run_tests (RunError msg) = (False, ''Error running tests: '' @ msg)"
  by (simp add: timeout_message_def)

theorem run_tests_classification_witness:
  "fst (run_tests (Completed 0 ''ok'' [])) \<and>
   \<not> fst (run_tests (Completed 2 ''F'' ''boom'')) \<and>
   snd (run_tests (Completed 2 ''F'' ''boom'')) = ''F'' @ [NL] @ ''boom'' \<and>
   run_tests (TimeoutExpired ''partial'' []) = (False, ''Test command timed out after 5 minutes'')"
  using run_tests_classification [of 0 "''ok''" "[]" "[]"]
    run_tests_classification [of 2 "''F''" "''boom''" "[]"]
    run_tests_classification [of 0 "''partial''" "[]" "[]"]
  by (simp add: strip_def is_space_def NL_def)

text \<open>
  C6 as stated fails: two runs that differ only in their nonzero exit code give the same
  result, so the exit code is not recorded, and a timeout gives the same result whatever
  had been captured.
\<close>

theorem run_tests_keeps_no_exit_code_counterexample:
  "run_tests (Completed 1 ''F'' []) = run_tests (Completed 2 ''F'' []) \<and>
   run_tests (TimeoutExpired ''partial output'' []) = run_tests (TimeoutExpired [] [])"
  by simp

section \<open>Properties of the parser's passes\<close>

lemma add_deletes_appends:
  "\<exists>ds. add_deletes ps cs = cs @ ds \<and> distinct (map path ds) \<and>
        set (map path ds) \<inter> set (map path cs) = {} \<and>
        set (map path ds) \<union> set (map path cs) = set ps \<union> set (map path cs) \<and>
        (\<forall>d \<in> set ds. action d = ''delete'' \<and> content d = [])"
proof (induction ps arbitrary: cs)
  case Nil
  show ?case by simp
next
  case (Cons p ps)
  show ?case
  proof (cases "p \<in> set (map path cs)")
    case True
    with Cons.IH [of cs] show ?thesis by auto
  next
    case False
    let ?d = "\<lparr>path = p, action = ''delete'', content = []\<rparr>"
    from Cons.IH [of "cs @ [?d]"] obtain ds where
      ds: "add_deletes ps (cs @ [?d]) = (cs @ [?d]) @ ds" "distinct (map path ds)"
        "set (map path ds) \<inter> set (map path (cs @ [?d])) = {}"
        "set (map path ds) \<union> set (map path (cs @ [?d])) = set ps \<union> set (map path (cs @ [?d]))"
        "\<forall>d \<in> set ds. action d = ''delete'' \<and> content d = []"
      by blast
    have "add_deletes (p # ps) cs = cs @ (?d # ds)" using False ds(1) by simp
    moreover have "distinct (map path (?d # ds))" using ds(2,3) by auto
    moreover have "set (map path (?d # ds)) \<inter> set (map path cs) = {}" using ds(3) False by auto
    moreover have "set (map path (?d # ds)) \<union> set (map path cs) = set (p # ps) \<union> set (map path cs)"
      using ds(4) by auto
    moreover have "\<forall>d \<in> set (?d # ds). action d = ''delete'' \<and> content d = []" using ds(5) by simp
    ultimately show ?thesis by blast
  qed
qed

text \<open>
  C4 (as amended).  Only the delete-only pass looks at the paths already found: the
  edits it adds are delete edits with empty content, no two of them have the same path,
  none has the path of an edit with content, and every path under a delete heading ends
  up in the result.  The edits with content stand before them exactly as the
  \<open>file_pattern\<close> (or \<open>alt_pattern\<close>) loop found them, one per matching section.
\<close>

theorem delete_pass_adds_new_paths_once:
  "\<exists>ds. markdown_changes text = content_changes text @ ds \<and> distinct (map path ds) \<and>
        set (map path ds) \<inter> set (map path (content_changes text)) = {} \<and>
        set (map path ds) \<union> set (map path (content_changes text)) =
          set (delete_paths text) \<union> set (map path (content_changes text)) \<and>
        (\<forall>d \<in> set ds. action d = ''delete'' \<and> content d = [])"
  unfolding markdown_changes_def by (rule add_deletes_appends)

theorem delete_pass_adds_new_paths_once_witness:
  "content_changes deletes_text = [\<lparr>path = ''a'', action = ''modify'', content = ''x''\<rparr>] \<and>
   delete_paths deletes_text = [''a'', ''b'', ''b''] \<and>
   markdown_changes deletes_text =
     content_changes deletes_text @ [\<lparr>path = ''b'', action = ''delete'', content = []\<rparr>]"
proof -
  have c: "content_changes deletes_text = [\<lparr>path = ''a'', action = ''modify'', content = ''x''\<rparr>]"
    by code_simp
  have p: "delete_paths deletes_text = [''a'', ''b'', ''b'']"
    by code_simp
  have m: "markdown_changes deletes_text =
     [\<lparr>path = ''a'', action = ''modify'', content = ''x''\<rparr>,
      \<lparr>path = ''b'', action = ''delete'', content = []\<rparr>]"
    by code_simp
  from delete_pass_adds_new_paths_once [of deletes_text] obtain ds where
    ds: "markdown_changes deletes_text = content_changes deletes_text @ ds"
    by blast
  then have "ds = [\<lparr>path = ''b'', action = ''delete'', content = []\<rparr>]"
    unfolding c m by simp
  with ds c p show ?thesis by simp
qed

text \<open>
  C4 as stated fails: two tagged sections for the same path give two edits for it.
\<close>

theorem same_path_twice_counterexample:
  "parse_model_response example_loads twice_text =
     JObject [(''explanation'', JString []),
              (''changes'', JArray [change_json \<lparr>path = ''a'', action = ''modify'', content = ''x''\<rparr>,
                                    change_json \<lparr>path = ''a'', action = ''modify'', content = ''y''\<rparr>])]"
  by code_simp

section \<open>Properties of the diff builder\<close>

lemma not_exists_current: "\<not> exists f P \<Longrightarrow> current_content f P = []"
  by (auto simp: exists_def current_content_def read_text_def
      split: sum.splits option.splits node.splits)

lemma diff_change_entry:
  assumes "diff_change root f (change_json c) diffs = Inr d"
  shows "d = (case diff_entry root f c of None \<Rightarrow> diffs | Some e \<Rightarrow> diffs(path c \<mapsto> e))"
proof (cases "exists f (joinpath root (path c))")
  case True
  with assms show ?thesis
    by (auto simp: diff_change_def change_json_def dict_get_def diff_entry_def Let_def
        current_content_def split: if_splits sum.splits)
next
  case False
  with assms not_exists_current [OF False] show ?thesis
    by (auto simp: diff_change_def change_json_def dict_get_def diff_entry_def Let_def
         split: if_splits)
qed

lemma diff_list_entries:
  assumes "diff_list root f (map change_json cs) diffs = Inr d" and "distinct (map path cs)"
  shows "(\<forall>c \<in> set cs. d (path c) =
            (case diff_entry root f c of None \<Rightarrow> diffs (path c) | Some e \<Rightarrow> Some e)) \<and>
         (\<forall>q. q \<notin> set (map path cs) \<longrightarrow> d q = diffs q)"
  using assms
proof (induction cs arbitrary: diffs)
  case Nil
  then show ?case by simp
next
  case (Cons c cs)
  from Cons.prems(1) obtain d1 where
    d1: "diff_change root f (change_json c) diffs = Inr d1"
    and rest: "diff_list root f (map change_json cs) d1 = Inr d"
    by (auto split: sum.splits)
  from Cons.prems(2) have dist: "distinct (map path cs)" and notin: "path c \<notin> set (map path cs)"
    by auto
  from Cons.IH [OF rest dist] have
    ih1: "\<forall>c' \<in> set cs. d (path c') =
            (case diff_entry root f c' of None \<Rightarrow> d1 (path c') | Some e \<Rightarrow> Some e)"
    and ih2: "\<forall>q. q \<notin> set (map path cs) \<longrightarrow> d q = d1 q"
    by blast+
  have d1eq: "d1 = (case diff_entry root f c of None \<Rightarrow> diffs | Some e \<Rightarrow> diffs(path c \<mapsto> e))"
    by (rule diff_change_entry [OF d1])
  have "d (path c) = d1 (path c)" using ih2 notin by blast
  then have here:
    "d (path c) = (case diff_entry root f c of None \<Rightarrow> diffs (path c) | Some e \<Rightarrow> Some e)"
    using d1eq by (simp split: option.splits)
  have other: "\<forall>q. q \<notin> set (map path (c # cs)) \<longrightarrow> d q = diffs q"
    using ih2 d1eq by (auto split: option.splits)
  have others: "\<forall>c' \<in> set cs. d (path c') =
            (case diff_entry root f c' of None \<Rightarrow> diffs (path c') | Some e \<Rightarrow> Some e)"
  proof
    fix c' assume c': "c' \<in> set cs"
    with notin have "path c' \<noteq> path c" by (metis imageI list.set_map)
    then have "d1 (path c') = diffs (path c')" using d1eq by (simp split: option.splits)
    with ih1 c' show "d (path c') =
            (case diff_entry root f c' of None \<Rightarrow> diffs (path c') | Some e \<Rightarrow> Some e)"
      by (simp split: option.splits)
  qed
  from here others other show ?case by simp
qed

text \<open>
  C9 (as amended).  For edits with distinct paths on which \<open>generate_diff\<close> returns, the
  entry of an edit depends on its action.  \<open>modify\<close>: \<open>old\<close> is the file's current content
  (empty when the file is absent) and \<open>new\<close> the edit's content.  \<open>create\<close>: \<open>old\<close> is the
  empty string whether or not the path exists, and \<open>new\<close> the edit's content.  \<open>delete\<close>
  of an existing file: \<open>old\<close> is its current content and \<open>new\<close> the empty string.  A
  \<open>delete\<close> of a missing file and an edit with any other action have no entry; and no
  other path has one.
\<close>

theorem generate_diff_entries:
  assumes "generate_diff (JArray (map change_json cs)) repo_path f = Inr d"
    and "distinct (map path cs)"
  shows "(\<forall>c \<in> set cs. d (path c) =
            (let P = joinpath (Path repo_path) (path c) in
             if action c = ''delete'' then
               (if exists f P
                then Some \<lparr>diff_action = ''delete'', old = current_content f P, new = JString []\<rparr>
                else None)
             else if action c = ''create'' then
               Some \<lparr>diff_action = ''create'', old = [], new = JString (content c)\<rparr>
             else if action c = ''modify'' then
               Some \<lparr>diff_action = ''modify'', old = current_content f P,
                     new = JString (content c)\<rparr>
             else None)) \<and>
         dom d \<subseteq> set (map path cs)"
proof -
  from assms(1) have "diff_list (Path repo_path) f (map change_json cs) Map.empty = Inr d"
    by (simp add: generate_diff_def iterate_def)
  from diff_list_entries [OF this assms(2)] have
    "(\<forall>c \<in> set cs. d (path c) = diff_entry (Path repo_path) f c) \<and>
     dom d \<subseteq> set (map path cs)"
    by (auto split: option.splits)
  then show ?thesis unfolding diff_entry_def .
qed

theorem generate_diff_entries_witness:
  "(case generate_diff
           (JArray (map change_json
              [\<lparr>path = ''notes'', action = ''modify'', content = ''new''\<rparr>,
               \<lparr>path = ''gone'', action = ''delete'', content = []\<rparr>]))
           ''/repo'' example_workspace of
      Inl e \<Rightarrow> []
    | Inr d \<Rightarrow> [d ''notes'', d ''gone'']) =
   [Some \<lparr>diff_action = ''modify'', old = ''old'' @ [NL], new = JString ''new''\<rparr>, None]"
proof -
  let ?cs = "[\<lparr>path = ''notes'', action = ''modify'', content = ''new''\<rparr>,
              \<lparr>path = ''gone'', action = ''delete'', content = []\<rparr>]"
  have "\<not> isl (generate_diff (JArray (map change_json ?cs)) ''/repo'' example_workspace)"
    by code_simp
  then obtain d where
    d: "generate_diff (JArray (map change_json ?cs)) ''/repo'' example_workspace = Inr d"
    by (cases "generate_diff (JArray (map change_json ?cs)) ''/repo'' example_workspace") auto
  have dist: "distinct (map path ?cs)" by simp
  have c: "current_content example_workspace (joinpath (Path ''/repo'') ''notes'') = ''old'' @ [NL]"
    by code_simp
  have e: "\<not> exists example_workspace (joinpath (Path ''/repo'') ''gone'')"
    by code_simp
  from generate_diff_entries [OF d dist] c e have
    "d ''notes'' = Some \<lparr>diff_action = ''modify'', old = ''old'' @ [NL], new = JString ''new''\<rparr>"
    "d ''gone'' = None"
    by simp_all
  with d show ?thesis by simp
qed

text \<open>
  C9 as stated fails: for a \<open>create\<close> edit on the existing file \<open>notes\<close>, whose content is
  \<open>old\<close> and a newline, the entry's \<open>old\<close> is the empty string.
\<close>

theorem create_on_existing_file_counterexample:
  "(case generate_diff
           (JArray [change_json \<lparr>path = ''notes'', action = ''create'', content = ''new''\<rparr>])
           ''/repo'' example_workspace of
      Inl e \<Rightarrow> None
    | Inr d \<Rightarrow> d ''notes'') =
   Some \<lparr>diff_action = ''create'', old = [], new = JString ''new''\<rparr> \<and>
   read_text example_workspace (joinpath (Path ''/repo'') ''notes'') = Inr (''old'' @ [NL])"
  by code_simp

section \<open>Properties of the workspace mutator\<close>







section \<open>Properties of the attempt loop\<close>

lemma attempt_Continue:
  assumes "attempt E r k i st = Continue st'"
  shows "(trace st' = trace st @ [Generated i] \<and> workspace st' = workspace st) \<or>
         trace st' = trace st @ [Generated i, Applied i, Validated i] @
                       (if i < k then [Reverted i] else [])"
  using assms
  by (auto simp: attempt_def log_def Let_def
      split: sum.splits json.splits option.splits prod.splits if_splits)

lemma attempt_Break:
  assumes "attempt E r k i st = Break out st'"
  shows "(\<exists>e. out = Raised e \<and>
            (trace st' = trace st @ [Generated i] \<or>
             trace st' = trace st @ [Generated i, Applied i] \<or>
             (trace st' = trace st @ [Generated i, Applied i, Validated i, Reverted i] \<and> i < k))) \<or>
         (\<exists>c x t. out = Succeeded i c x t \<and>
            trace st' = trace st @ [Generated i, Applied i, Validated i])"
  using assms
  by (auto simp: attempt_def log_def Let_def
      split: sum.splits json.splits option.splits prod.splits if_splits)

lemma run_ok_Break:
  assumes "attempt E r k i st = Break out st'"
  shows "\<exists>ev. trace st' = trace st @ ev \<and> run_ok k (i # rest) out ev"
  using attempt_Break [OF assms]
  by (auto simp: run_ok_def)

lemma run_ok_Continue:
  assumes "attempt E r k i st = Continue st1" and "trace st' = trace st1 @ ev1"
    and "run_ok k rest out ev1"
  shows "\<exists>ev. trace st' = trace st @ ev \<and> run_ok k (i # rest) out ev"
proof -
  from attempt_Continue [OF assms(1)] obtain ev0 where
    ev0: "trace st1 = trace st @ ev0"
      "ev0 = [Generated i] \<or> ev0 = [Generated i, Applied i, Validated i] @
                       (if i < k then [Reverted i] else [])"
    by auto
  have "run_ok k (i # rest) out (ev0 @ ev1)"
    using ev0(2) assms(3)
    by (cases out) (auto simp: run_ok_def)
  with ev0(1) assms(2) show ?thesis by auto
qed

lemma attempts_trace:
  "attempts E r k is st = (out, st') \<Longrightarrow> \<exists>ev. trace st' = trace st @ ev \<and> run_ok k is out ev"
proof (induction "is" arbitrary: st)
  case Nil
  then show ?case by (auto simp: run_ok_def)
next
  case (Cons i rest)
  show ?case
  proof (cases "attempt E r k i st")
    case (Break out1 st1)
    with Cons.prems have "out1 = out" "st1 = st'" by auto
    with Break run_ok_Break show ?thesis by blast
  next
    case (Continue st1)
    with Cons.prems have "attempts E r k rest st1 = (out, st')" by simp
    from Cons.IH [OF this] obtain ev1 where "trace st' = trace st1 @ ev1" "run_ok k rest out ev1"
      by blast
    from run_ok_Continue [OF Continue this] show ?thesis .
  qed
qed





text \<open>
  C7 (as amended).  An exception of the mutator in attempt \<open>i\<close> leaves the loop and \<open>main\<close>
  at once, whatever attempts were still to come: the run ends with that exception, after
  the generation and the apply of attempt \<open>i\<close>, with no validation, no reset and no
  further attempt, and the workspace stays as the mutator left it.
\<close>

theorem mutation_error_ends_run:
  assumes "call_llm E i (previous_attempt st) = Inr text"
    and "parse_model_response (json_loads E) text = JObject parsed"
    and "map_of parsed ''changes'' = Some changes"
    and "truthy changes"
    and "apply_changes changes repo_path (workspace st) = (Inl e, f1)"
  shows "attempts E repo_path k (i # rest) st =
           (Raised e, st\<lparr>workspace := f1, trace := trace st @ [Generated i, Applied i]\<rparr>)"
  using assms by (simp add: attempt_def log_def)

theorem mutation_error_ends_run_witness:
  "fst (attempts writes_directory ''/repo'' 3 [1, 2, 3] start) = Raised IsADirectoryError \<and>
   trace (snd (attempts writes_directory ''/repo'' 3 [1, 2, 3] start)) = [Generated 1, Applied 1]"
proof -
  let ?changes = "JArray [change_json \<lparr>path = ''src'', action = ''modify'', content = ''x''\<rparr>]"
  let ?r = "apply_changes ?changes ''/repo'' (workspace start)"
  have h1: "call_llm writes_directory 1 (previous_attempt start) = Inr directory_text"
    by (simp add: writes_directory_def)
  have h2: "parse_model_response (json_loads writes_directory) directory_text =
      JObject [(''explanation'', JString []), (''changes'', ?changes)]"
    by code_simp
  have h3: "map_of [(''explanation'', JString []), (''changes'', ?changes)] ''changes'' = Some ?changes"
    by simp
  have h4: "truthy ?changes" by (simp add: truthy_def)
  have "fst ?r = Inl IsADirectoryError" by code_simp
  then have h5: "?r = (Inl IsADirectoryError, snd ?r)" by (simp add: prod_eq_iff)
  from mutation_error_ends_run [OF h1 h2 h3 h4 h5, of 3 "[2, 3]"]
  show ?thesis by (simp add: start_def del: attempts.simps)
qed

text \<open>
  C7 as stated fails: with three attempts allowed, a first response that names the
  directory \<open>src\<close> as a file makes the mutator raise, and the run ends there: nothing is
  reverted and no second attempt is made.
\<close>

theorem mutation_error_is_fatal_counterexample:
  "fst (main writes_directory ''/repo'' 3 example_workspace) = Raised IsADirectoryError \<and>
   trace (snd (main writes_directory ''/repo'' 3 example_workspace)) = [Generated 1, Applied 1]"
  by code_simp

text \<open>
  C8.  An attempt \<open>i\<close> whose parsed changes are empty goes on to the attempts that remain
  with the workspace as it was, with the feedback \<open>Model did not provide any file changes\<close>
  (and the first 1000 characters of the response) recorded for the next attempt, and with
  the generation call as its only call: when no later attempt has the same number, the
  calls of attempt \<open>i\<close> in the whole run are the ones made before plus that generation.
\<close>

theorem empty_edits_attempt_is_skipped:
  assumes "call_llm E i (previous_attempt st) = Inr text"
    and "parse_model_response (json_loads E) text = JObject parsed"
    and "map_of parsed ''changes'' = Some changes"
    and "\<not> truthy changes"
  shows "attempts E repo_path k (i # rest) st =
           attempts E repo_path k rest
             (st\<lparr>previous_attempt :=
                   Some \<lparr>test_output = ''Model did not provide any file changes'',
                         changes_summary = ResponseHead (take 1000 text)\<rparr>,
                 trace := trace st @ [Generated i]\<rparr>) \<and>
         (i \<notin> set rest \<longrightarrow>
            filter (\<lambda>e. attempt_of e = i) (trace (snd (attempts E repo_path k (i # rest) st))) =
            filter (\<lambda>e. attempt_of e = i) (trace st) @ [Generated i])"
proof -
  let ?st1 = "st\<lparr>previous_attempt :=
                   Some \<lparr>test_output = ''Model did not provide any file changes'',
                         changes_summary = ResponseHead (take 1000 text)\<rparr>,
                 trace := trace st @ [Generated i]\<rparr>"
  have step: "attempts E repo_path k (i # rest) st = attempts E repo_path k rest ?st1"
    using assms by (simp add: attempt_def log_def no_changes_message_def)
  obtain out st' where r: "attempts E repo_path k rest ?st1 = (out, st')"
    by (cases "attempts E repo_path k rest ?st1")
  from attempts_trace [OF r] obtain ev where
    ev: "trace st' = trace ?st1 @ ev" "\<forall>e\<in>set ev. attempt_of e \<in> set rest"
    by (auto simp: run_ok_def)
  have "i \<notin> set rest \<Longrightarrow> filter (\<lambda>e. attempt_of e = i) ev = []"
    using ev(2) by (auto simp: filter_empty_conv)
  with step r ev(1) show ?thesis by simp
qed

theorem empty_edits_attempt_is_skipped_witness:
  "attempts no_sections ''/repo'' 2 [1, 2] start =
     attempts no_sections ''/repo'' 2 [2]
       (start\<lparr>previous_attempt :=
                Some \<lparr>test_output = ''Model did not provide any file changes'',
                      changes_summary = ResponseHead ''I can not do that.''\<rparr>,
              trace := [Generated 1]\<rparr>) \<and>
   filter (\<lambda>e. attempt_of e = 1) (trace (snd (attempts no_sections ''/repo'' 2 [1, 2] start))) =
     [Generated 1]"
proof -
  have h1: "call_llm no_sections 1 (previous_attempt start) = Inr ''I can not do that.''"
    by (simp add: no_sections_def)
  have h2: "parse_model_response (json_loads no_sections) ''I can not do that.'' =
      JObject [(''explanation'', JString []), (''changes'', JArray [])]"
    by code_simp
  have h3: "map_of [(''explanation'', JString []), (''changes'', JArray [])] ''changes'' =
      Some (JArray [])"
    by simp
  have h4: "\<not> truthy (JArray [])" by (simp add: truthy_def)
  note inst = empty_edits_attempt_is_skipped [OF h1 h2 h3 h4, of "''/repo''" 2 "[2]"]
  from inst [THEN conjunct1] have a:
    "attempts no_sections ''/repo'' 2 [1, 2] start =
     attempts no_sections ''/repo'' 2 [2]
       (start\<lparr>previous_attempt :=
                Some \<lparr>test_output = ''Model did not provide any file changes'',
                      changes_summary = ResponseHead ''I can not do that.''\<rparr>,
              trace := [Generated 1]\<rparr>)"
    by (simp add: start_def del: attempts.simps)
  from inst [THEN conjunct2] have b:
    "filter (\<lambda>e. attempt_of e = 1) (trace (snd (attempts no_sections ''/repo'' 2 [1, 2] start))) =
     [Generated 1]"
    by (simp add: start_def del: attempts.simps)
  show ?thesis by (rule conjI [OF a b])
qed

section \<open>The matcher on texts of a known shape\<close>





lemma rmatch_lit_fail: "lit_match False l s = None \<Longrightarrow> rmatch False (R (Lit l) # k) s c = None"
  by simp

lemma star_then_lit:
  assumes "l \<noteq> []" and "\<not> in_cls cl (hd l)"
  shows "rmatch False (R (Star cl) # R (Lit l) # k) s c =
         rmatch False (R (Lit l) # k) (dropWhile (in_cls cl) s) c"
proof (induction s)
  case Nil
  then show ?case by simp
next
  case (Cons x xs)
  show ?case
  proof (cases "in_cls cl x")
    case True
    with assms have "lit_match False l (x # xs) = None"
      by (cases l) auto
    with True Cons show ?thesis by (simp split: option.splits)
  next
    case False
    then show ?thesis by simp
  qed
qed



















section \<open>Properties of the parser: the structured block\<close>




section \<open>Properties of the parser and the mutator: the round trip\<close>


























section \<open>Properties of the mutator: where it writes\<close>

























end
